theory Spec2Isabelle
  imports Complex_Main "HOL-Library.Monad_Syntax"
begin

section \<open>Touch gesture interpretation (TouchInput.tsx)\<close>

text \<open>
  JavaScript numbers are modelled as mathematical reals: pixel coordinates, distances and the
  accumulators are \<^typ>\<open>real\<close>, and \<open>Date.now()\<close> readings are integers (milliseconds).
  Rounding of IEEE doubles, infinities and NaN are outside this model. Division agrees with
  JavaScript whenever the divisor is not zero.
\<close>

subsection \<open>Data\<close>

text \<open>A touch point \<open>{ x: t.clientX, y: t.clientY }\<close>.\<close>

record point =
  x :: real
  y :: real

text \<open>
  Every call of a context setter is recorded, with the value the setter stores. For the setters
  called with an updater function this is the updater applied to the current value.
\<close>

datatype signal =
  SetRotationBoost real
| SetPanOffset point
| SetZoomOffset real
| SetPointer point
| SetClickTrigger int

text \<open>
  The five refs of the component, the five context values it writes, and the log of setter calls.
\<close>

record world =
  lastTouchRef :: "point list"
  lastDistRef :: "real option"
  touchStartTimeRef :: int
  startTouchPosRef :: "point option"
  isDraggingRef :: bool
  rotationBoost :: real
  panOffset :: point
  zoomOffset :: real
  pointer :: point
  clickTrigger :: int
  signals :: "signal list"

text \<open>
  What a handler reads from outside: the display mode \<open>state\<close> of the context and the
  viewport size \<open>window.innerWidth\<close>, \<open>window.innerHeight\<close>.
\<close>

record env =
  state :: string
  innerWidth :: real
  innerHeight :: real

definition TAP_THRESHOLD :: real where
  "TAP_THRESHOLD = 10"

definition TAP_TIMEOUT :: int where
  "TAP_TIMEOUT = 300"

subsection \<open>Primitives\<close>

text \<open>\<open>Math.hypot(a, b)\<close>.\<close>

definition hypot :: "real \<Rightarrow> real \<Rightarrow> real" where
  "hypot a b = sqrt (a\<^sup>2 + b\<^sup>2)"

text \<open>
  \<open>touches[i]\<close> read for one of its properties: out of range the element is \<open>undefined\<close>
  and the property read throws a TypeError, which \<open>None\<close> stands for.
\<close>

definition elemAt :: "'a list \<Rightarrow> nat \<Rightarrow> 'a option" where
  "elemAt xs i = (if i < length xs then Some (xs ! i) else None)"

definition setRotationBoost :: "(real \<Rightarrow> real) \<Rightarrow> world \<Rightarrow> world" where
  "setRotationBoost f w =
     (let v = f (rotationBoost w)
      in w\<lparr>rotationBoost := v, signals := signals w @ [SetRotationBoost v]\<rparr>)"

definition setPanOffset :: "(point \<Rightarrow> point) \<Rightarrow> world \<Rightarrow> world" where
  "setPanOffset f w =
     (let v = f (panOffset w)
      in w\<lparr>panOffset := v, signals := signals w @ [SetPanOffset v]\<rparr>)"

definition setZoomOffset :: "(real \<Rightarrow> real) \<Rightarrow> world \<Rightarrow> world" where
  "setZoomOffset f w =
     (let v = f (zoomOffset w)
      in w\<lparr>zoomOffset := v, signals := signals w @ [SetZoomOffset v]\<rparr>)"

definition setPointer :: "point \<Rightarrow> world \<Rightarrow> world" where
  "setPointer p w = w\<lparr>pointer := p, signals := signals w @ [SetPointer p]\<rparr>"

definition setClickTrigger :: "int \<Rightarrow> world \<Rightarrow> world" where
  "setClickTrigger t w = w\<lparr>clickTrigger := t, signals := signals w @ [SetClickTrigger t]\<rparr>"

subsection \<open>The handlers\<close>

text \<open>
  \<open>handleTouchStart\<close>: \<open>now\<close> is the reading of \<open>Date.now()\<close>, \<open>touches\<close> the mapped
  \<open>e.touches\<close>.
\<close>

definition handleTouchStart :: "env \<Rightarrow> int \<Rightarrow> point list \<Rightarrow> world \<Rightarrow> world option" where
  "handleTouchStart e now touches w0 =
     (let w = w0\<lparr>lastTouchRef := touches, touchStartTimeRef := now, isDraggingRef := False\<rparr>
      in if length touches = 1 then do {
           t0 \<leftarrow> elemAt touches 0;
           Some (setPointer \<lparr>x = x t0 / innerWidth e, y = y t0 / innerHeight e\<rparr>
                   (w\<lparr>startTouchPosRef := Some t0\<rparr>))
         }
         else if length touches = 2 then do {
           t0 \<leftarrow> elemAt touches 0;
           t1 \<leftarrow> elemAt touches 1;
           Some (w\<lparr>lastDistRef := Some (hypot (x t0 - x t1) (y t0 - y t1))\<rparr>)
         }
         else Some w)"

text \<open>The first \<open>if\<close> of \<open>handleTouchMove\<close>: single finger interaction.\<close>

definition moveSingle :: "env \<Rightarrow> point list \<Rightarrow> world \<Rightarrow> world option" where
  "moveSingle e touches w =
     (if length touches = 1 \<and> length (lastTouchRef w) = 1 then do {
        t0 \<leftarrow> elemAt touches 0;
        l0 \<leftarrow> elemAt (lastTouchRef w) 0;
        let dx = x t0 - x l0;
        let dy = y t0 - y l0;
        let w1 = (if \<bar>dx\<bar> > 2 \<or> \<bar>dy\<bar> > 2 then w\<lparr>isDraggingRef := True\<rparr> else w);
        let w2 = (if state e = ''FORMED''
                  then (let sensitivity = 0.5; boost = dx * sensitivity * 0.05
                        in setRotationBoost (\<lambda>prev. max (min (prev - boost) 3.0) (- 3.0)) w1)
                  else setPanOffset (\<lambda>prev. \<lparr>x = x prev + dx * 0.05, y = y prev - dy * 0.05\<rparr>) w1);
        Some (setPointer \<lparr>x = x t0 / innerWidth e, y = y t0 / innerHeight e\<rparr> w2)
      }
      else Some w)"

text \<open>The second \<open>if\<close> of \<open>handleTouchMove\<close>: pinch zoom.\<close>

definition movePinch :: "point list \<Rightarrow> world \<Rightarrow> world option" where
  "movePinch touches w =
     (if length touches = 2 \<and> length (lastTouchRef w) = 2 \<and> lastDistRef w \<noteq> None then do {
        let w1 = w\<lparr>isDraggingRef := True\<rparr>;
        t0 \<leftarrow> elemAt touches 0;
        t1 \<leftarrow> elemAt touches 1;
        let dist = hypot (x t0 - x t1) (y t0 - y t1);
        lastDist \<leftarrow> lastDistRef w1;
        let deltaDist = dist - lastDist;
        let w2 = setZoomOffset (\<lambda>prev. let next = prev - deltaDist * 0.05
                                         in max (- 20) (min next 40)) w1;
        Some (w2\<lparr>lastDistRef := Some dist\<rparr>)
      }
      else Some w)"

definition handleTouchMove :: "env \<Rightarrow> point list \<Rightarrow> world \<Rightarrow> world option" where
  "handleTouchMove e touches w = do {
     w1 \<leftarrow> moveSingle e touches w;
     w2 \<leftarrow> movePinch touches w1;
     Some (w2\<lparr>lastTouchRef := touches\<rparr>)
   }"

text \<open>
  \<open>handleTouchEnd\<close>: \<open>now1\<close> and \<open>now2\<close> are the two readings of \<open>Date.now()\<close>, in the
  order the handler takes them, and \<open>remaining\<close> is \<open>e.touches.length\<close>. The handler reads no
  array element, so it cannot throw. Its \<open>if (selectedPhotoUrl)\<close> has an empty body.
\<close>

definition handleTouchEnd :: "int \<Rightarrow> int \<Rightarrow> nat \<Rightarrow> world \<Rightarrow> world" where
  "handleTouchEnd now1 now2 remaining w =
     (let timeSinceStart = now1 - touchStartTimeRef w;
          w1 = (if \<not> isDraggingRef w \<and> timeSinceStart < TAP_TIMEOUT \<and> length (lastTouchRef w) = 1
                then setClickTrigger now2 w else w)
      in if remaining = 0 then w1\<lparr>lastDistRef := None\<rparr> else w1)"

subsection \<open>Event streams\<close>

text \<open>
  An event carries the clock readings its handler takes and the points of \<open>e.touches\<close>, the
  touches still active: for a touch-end these are the fingers that stay down.
\<close>

datatype event =
  TouchStart int "point list"
| TouchMove "point list"
| TouchEnd int int "point list"

fun touchesOf :: "event \<Rightarrow> point list" where
  "touchesOf (TouchStart now ts) = ts"
| "touchesOf (TouchMove ts) = ts"
| "touchesOf (TouchEnd now1 now2 ts) = ts"

fun isStart :: "event \<Rightarrow> bool" where
  "isStart (TouchStart now ts) = True"
| "isStart (TouchMove ts) = False"
| "isStart (TouchEnd now1 now2 ts) = False"

fun step :: "env \<Rightarrow> event \<Rightarrow> world \<Rightarrow> world option" where
  "step e (TouchStart now ts) w = handleTouchStart e now ts w"
| "step e (TouchMove ts) w = handleTouchMove e ts w"
| "step e (TouchEnd now1 now2 ts) w = Some (handleTouchEnd now1 now2 (length ts) w)"

text \<open>A stream of events, each with the environment it is handled in; a throw ends the run.\<close>

fun run :: "(env \<times> event) list \<Rightarrow> world \<Rightarrow> world option" where
  "run [] w = Some w"
| "run ((e, ev) # evs) w = (case step e ev w of None \<Rightarrow> None | Some w' \<Rightarrow> run evs w')"

subsection \<open>Vocabulary of the properties\<close>

text \<open>The setter calls made between two worlds, the later one reached from the earlier.\<close>

definition emittedBy :: "world \<Rightarrow> world \<Rightarrow> signal list" where
  "emittedBy w w' = drop (length (signals w)) (signals w')"

text \<open>The ranges of the two clamped accumulators; the other signals are not bounded.\<close>

fun inRange :: "signal \<Rightarrow> bool" where
  "inRange (SetRotationBoost r) = (- 3 \<le> r \<and> r \<le> 3)"
| "inRange (SetZoomOffset z) = (- 20 \<le> z \<and> z \<le> 40)"
| "inRange s = True"

text \<open>The specification's \<open>clamp(v, lo, hi)\<close>, to compare the handlers' expressions with.\<close>

definition clamp :: "real \<Rightarrow> real \<Rightarrow> real \<Rightarrow> real" where
  "clamp v lo hi = max lo (min v hi)"

text \<open>
  The refs as \<open>useRef\<close> initialises them. The context's initial values are not part of the
  component; they are zero here.
\<close>

definition initialWorld :: world where
  "initialWorld =
     \<lparr>lastTouchRef = [], lastDistRef = None, touchStartTimeRef = 0, startTouchPosRef = None,
      isDraggingRef = False, rotationBoost = 0, panOffset = \<lparr>x = 0, y = 0\<rparr>, zoomOffset = 0,
      pointer = \<lparr>x = 0, y = 0\<rparr>, clickTrigger = 0, signals = []\<rparr>"

text \<open>A viewport of 1000 by 1000 pixels, in the FORMED mode and in another one.\<close>

definition formedEnv :: env where
  "formedEnv = \<lparr>state = ''FORMED'', innerWidth = 1000, innerHeight = 1000\<rparr>"

definition chaosEnv :: env where
  "chaosEnv = \<lparr>state = ''CHAOS'', innerWidth = 1000, innerHeight = 1000\<rparr>"

text \<open>A finger resting at (500, 500), and two fingers 100 pixels apart.\<close>

definition dragWorld :: world where
  "dragWorld = initialWorld\<lparr>lastTouchRef := [\<lparr>x = 500, y = 500\<rparr>]\<rparr>"

definition pinchWorld :: world where
  "pinchWorld =
     initialWorld\<lparr>lastTouchRef := [\<lparr>x = 0, y = 0\<rparr>, \<lparr>x = 100, y = 0\<rparr>], lastDistRef := Some 100\<rparr>"

text \<open>The pointer position the specification asks for, and the unit square.\<close>

definition normalized :: "env \<Rightarrow> point \<Rightarrow> point" where
  "normalized e p = \<lparr>x = x p / innerWidth e, y = y p / innerHeight e\<rparr>"

definition inUnitSquare :: "point \<Rightarrow> bool" where
  "inUnitSquare p = (0 \<le> x p \<and> x p \<le> 1 \<and> 0 \<le> y p \<and> y p \<le> 1)"

text \<open>A session that never has more than one active point, in the words of the tap rule.\<close>

definition neverMultiTouch :: "(env \<times> event) list \<Rightarrow> bool" where
  "neverMultiTouch evs = list_all (\<lambda>p. length (touchesOf (snd p)) \<le> 1) evs"

text \<open>A move sample of exactly one point.\<close>

fun isSingleMove :: "env \<times> event \<Rightarrow> bool" where
  "isSingleMove (e, TouchMove ts) = (length ts = 1)"
| "isSingleMove (e, ev) = False"

text \<open>The same stream with every sample cut down to its first two points.\<close>

definition firstTwo :: "(env \<times> event) list \<Rightarrow> (env \<times> event) list" where
  "firstTwo evs =
     map (\<lambda>(e, ev). (e, case ev of
            TouchStart now ts \<Rightarrow> TouchStart now (take 2 ts)
          | TouchMove ts \<Rightarrow> TouchMove (take 2 ts)
          | TouchEnd now1 now2 ts \<Rightarrow> TouchEnd now1 now2 (take 2 ts))) evs"

subsection \<open>Sample sessions\<close>

text \<open>
  One finger goes down, a second one lands 10 ms later and lifts again, the first one moves by
  a pixel and lifts 40 ms after the start.
\<close>

definition secondFingerSession :: "(env \<times> event) list" where
  "secondFingerSession =
     [(chaosEnv, TouchStart 0 [\<lparr>x = 500, y = 500\<rparr>]),
      (chaosEnv, TouchStart 10 [\<lparr>x = 500, y = 500\<rparr>, \<lparr>x = 600, y = 500\<rparr>]),
      (chaosEnv, TouchEnd 20 20 [\<lparr>x = 500, y = 500\<rparr>]),
      (chaosEnv, TouchMove [\<lparr>x = 501, y = 500\<rparr>]),
      (chaosEnv, TouchEnd 40 40 [])]"

text \<open>One finger drags, then a second finger lands while the first is still down.\<close>

definition dragThenSecondFinger :: "(env \<times> event) list" where
  "dragThenSecondFinger =
     [(chaosEnv, TouchStart 0 [\<lparr>x = 500, y = 500\<rparr>]),
      (chaosEnv, TouchMove [\<lparr>x = 520, y = 480\<rparr>]),
      (chaosEnv, TouchStart 100 [\<lparr>x = 520, y = 480\<rparr>, \<lparr>x = 600, y = 500\<rparr>])]"


text \<open>Three fingers go down; the second one moves from 100 to 140 pixels off the first.\<close>

definition threeFingerSession :: "(env \<times> event) list" where
  "threeFingerSession =
     [(chaosEnv, TouchStart 0 [\<lparr>x = 0, y = 0\<rparr>, \<lparr>x = 100, y = 0\<rparr>, \<lparr>x = 0, y = 300\<rparr>]),
      (chaosEnv, TouchMove [\<lparr>x = 0, y = 0\<rparr>, \<lparr>x = 140, y = 0\<rparr>, \<lparr>x = 0, y = 300\<rparr>])]"

section \<open>Sharing a tree by URL (TreeCreator.tsx)\<close>

text \<open>
  Strings are lists of characters. The colours, the origin and the path are taken to be ASCII,
  so that a character of the model is a code unit of the JavaScript string and a byte of the
  query string at once.
\<close>

subsection \<open>The browser's side: the query string and \<open>URLSearchParams\<close>\<close>

text \<open>
  \<open>window.location.search\<close> of a page opened at \<open>url\<close>: the part from the first \<open>?\<close>
  up to the fragment, and the empty string when the query is empty.
\<close>

definition locationSearch :: "string \<Rightarrow> string" where
  "locationSearch url =
     (let q = dropWhile (\<lambda>c. c \<noteq> CHR ''?'') (takeWhile (\<lambda>c. c \<noteq> CHR ''#'') url)
      in if q = ''?'' then [] else q)"

fun splitOn :: "char \<Rightarrow> string \<Rightarrow> string list" where
  "splitOn c [] = [[]]"
| "splitOn c (a # s) =
     (if a = c then [] # splitOn c s else (a # hd (splitOn c s)) # tl (splitOn c s))"

definition isHexDigit :: "char \<Rightarrow> bool" where
  "isHexDigit c = (c \<in> set ''0123456789abcdefABCDEF'')"

definition hexValue :: "char \<Rightarrow> nat" where
  "hexValue c =
     (let n = of_char c
      in if of_char CHR ''0'' \<le> n \<and> n \<le> of_char CHR ''9'' then n - of_char CHR ''0''
         else if of_char CHR ''a'' \<le> n \<and> n \<le> of_char CHR ''f'' then n - of_char CHR ''a'' + 10
         else n - of_char CHR ''A'' + 10)"

text \<open>Percent-decoding: a \<open>%\<close> that two hex digits do not follow stands for itself.\<close>

fun percentDecode :: "string \<Rightarrow> string" where
  "percentDecode (c # h1 # h2 # s) =
     (if c = CHR ''%'' \<and> isHexDigit h1 \<and> isHexDigit h2
      then char_of (16 * hexValue h1 + hexValue h2) # percentDecode s
      else c # percentDecode (h1 # h2 # s))"
| "percentDecode s = s"

definition plusToSpace :: "string \<Rightarrow> string" where
  "plusToSpace s = map (\<lambda>c. if c = CHR ''+'' then CHR '' '' else c) s"

text \<open>One \<open>name=value\<close> sequence: split at the first \<open>=\<close>, if there is one.\<close>

definition parsePair :: "string \<Rightarrow> string \<times> string" where
  "parsePair s =
     (let name = takeWhile (\<lambda>c. c \<noteq> CHR ''='') s;
          val = (if CHR ''='' \<in> set s then tl (dropWhile (\<lambda>c. c \<noteq> CHR ''='') s) else [])
      in (percentDecode (plusToSpace name), percentDecode (plusToSpace val)))"

text \<open>
  \<open>new URLSearchParams(init)\<close> for a string: a leading \<open>?\<close> is dropped, the rest is split at
  \<open>&\<close>, and empty sequences are skipped.
\<close>

definition urlSearchParams :: "string \<Rightarrow> (string \<times> string) list" where
  "urlSearchParams init =
     (let s = (case init of c # r \<Rightarrow> if c = CHR ''?'' then r else init | [] \<Rightarrow> init)
      in map parsePair (filter (\<lambda>b. b \<noteq> []) (splitOn CHR ''&'' s)))"

text \<open>\<open>params.get(name)\<close>: the value of the first pair of that name, or \<open>null\<close>.\<close>

definition paramsGet :: "(string \<times> string) list \<Rightarrow> string \<Rightarrow> string option" where
  "paramsGet params name = map_of params name"

subsection \<open>The component\<close>

record tree_config =
  primaryColor :: string
  accentColor :: string
  lightColor :: string
  photoUrl :: "string option"

text \<open>
  The state the two functions touch: the context's \<open>treeConfig\<close> (which may be \<open>null\<close>), the
  component's \<open>isPanelOpen\<close> and \<open>shareUrl\<close>, and the clipboard.
\<close>

record creator =
  treeConfig :: "tree_config option"
  isPanelOpen :: bool
  shareUrl :: "string option"
  clipboard :: "string option"

text \<open>\<open>s.replace('#', '')\<close>: the first \<open>#\<close> is removed, later ones stay.\<close>

definition stripHash :: "string \<Rightarrow> string" where
  "stripHash s = remove1 CHR ''#'' s"

text \<open>The template string of \<open>generateShareLink\<close>.\<close>

definition shareLink :: "string \<Rightarrow> string \<Rightarrow> tree_config \<Rightarrow> string" where
  "shareLink origin pathname cfg =
     (let c1 = stripHash (primaryColor cfg);
          c2 = stripHash (accentColor cfg);
          c3 = stripHash (lightColor cfg)
      in origin @ pathname @ ''?c1='' @ c1 @ ''&c2='' @ c2 @ ''&c3='' @ c3)"

definition generateShareLink :: "string \<Rightarrow> string \<Rightarrow> creator \<Rightarrow> creator" where
  "generateShareLink origin pathname st =
     (case treeConfig st of
        None \<Rightarrow> st
      | Some cfg \<Rightarrow>
          (let url = shareLink origin pathname cfg
           in st\<lparr>shareUrl := Some url, clipboard := Some url\<rparr>))"

text \<open>A string is truthy when it is neither \<open>null\<close> nor empty.\<close>

definition truthy :: "string option \<Rightarrow> bool" where
  "truthy v = (case v of None \<Rightarrow> False | Some s \<Rightarrow> s \<noteq> [])"

text \<open>The effect that runs on mount, with \<open>search\<close> the value of \<open>window.location.search\<close>.\<close>

definition loadFromSearch :: "string \<Rightarrow> creator \<Rightarrow> creator" where
  "loadFromSearch search st =
     (let params = urlSearchParams search;
          c1 = paramsGet params ''c1'';
          c2 = paramsGet params ''c2'';
          c3 = paramsGet params ''c3''
      in if truthy c1 \<and> truthy c2 \<and> truthy c3
         then (case (c1, c2, c3) of
                 (Some v1, Some v2, Some v3) \<Rightarrow>
                   st\<lparr>treeConfig := Some \<lparr>primaryColor = ''#'' @ v1, accentColor = ''#'' @ v2,
                                           lightColor = ''#'' @ v3, photoUrl = None\<rparr>,
                      isPanelOpen := True\<rparr>
               | _ \<Rightarrow> st)
         else st)"

text \<open>A colour as the claims speak of it: \<open>#\<close> followed by hex digits.\<close>

definition hexColor :: "string \<Rightarrow> bool" where
  "hexColor s = (case s of [] \<Rightarrow> False | c # h \<Rightarrow> c = CHR ''#'' \<and> list_all isHexDigit h)"

subsection \<open>Sample configurations\<close>

definition sampleConfig :: tree_config where
  "sampleConfig =
     \<lparr>primaryColor = ''#ff0000'', accentColor = ''#00FF00'', lightColor = ''#0000ff'',
      photoUrl = Some ''blob:photo''\<rparr>"

text \<open>A configuration whose primary colour is \<open>#\<close> followed by no digit at all.\<close>

definition emptyHexConfig :: tree_config where
  "emptyHexConfig =
     \<lparr>primaryColor = ''#'', accentColor = ''#00ff00'', lightColor = ''#0000ff'', photoUrl = None\<rparr>"

definition freshCreator :: creator where
  "freshCreator = \<lparr>treeConfig = None, isPanelOpen = False, shareUrl = None, clipboard = None\<rparr>"

section \<open>Properties of the handlers\<close>

subsection \<open>What each branch of the handlers computes\<close>

lemmas setters = setRotationBoost_def setPanOffset_def setZoomOffset_def setPointer_def
  setClickTrigger_def

lemma moveSingle_miss:
  "\<not> (length ts = 1 \<and> length (lastTouchRef w) = 1) \<Longrightarrow> moveSingle e ts w = Some w"
  by (auto simp: moveSingle_def)

lemma movePinch_miss:
  "\<not> (length ts = 2 \<and> length (lastTouchRef w) = 2 \<and> lastDistRef w \<noteq> None) \<Longrightarrow> movePinch ts w = Some w"
  by (auto simp: movePinch_def)

lemma moveSingle_hit:
  assumes "length ts = 1" "length (lastTouchRef w) = 1"
  shows "moveSingle e ts w =
     Some (let t0 = ts ! 0; l0 = lastTouchRef w ! 0; dx = x t0 - x l0; dy = y t0 - y l0;
               w1 = (if \<bar>dx\<bar> > 2 \<or> \<bar>dy\<bar> > 2 then w\<lparr>isDraggingRef := True\<rparr> else w);
               w2 = (if state e = ''FORMED''
                     then setRotationBoost (\<lambda>prev. max (min (prev - dx * 0.5 * 0.05) 3) (- 3)) w1
                     else setPanOffset (\<lambda>prev. \<lparr>x = x prev + dx * 0.05, y = y prev - dy * 0.05\<rparr>) w1)
           in setPointer \<lparr>x = x t0 / innerWidth e, y = y t0 / innerHeight e\<rparr> w2)"
  using assms by (simp add: moveSingle_def elemAt_def Let_def)

lemma movePinch_hit:
  assumes "length ts = 2" "length (lastTouchRef w) = 2" "lastDistRef w = Some d"
  shows "movePinch ts w =
     Some (let dist = hypot (x (ts ! 0) - x (ts ! 1)) (y (ts ! 0) - y (ts ! 1))
           in (setZoomOffset (\<lambda>prev. max (- 20) (min (prev - (dist - d) * 0.05) 40))
                 (w\<lparr>isDraggingRef := True\<rparr>))\<lparr>lastDistRef := Some dist\<rparr>)"
  using assms by (simp add: movePinch_def elemAt_def Let_def)

lemma handleTouchMove_single:
  assumes "length ts = 1" "length (lastTouchRef w) = 1"
  shows "handleTouchMove e ts w =
     Some ((let t0 = ts ! 0; l0 = lastTouchRef w ! 0; dx = x t0 - x l0; dy = y t0 - y l0;
               w1 = (if \<bar>dx\<bar> > 2 \<or> \<bar>dy\<bar> > 2 then w\<lparr>isDraggingRef := True\<rparr> else w);
               w2 = (if state e = ''FORMED''
                     then setRotationBoost (\<lambda>prev. max (min (prev - dx * 0.5 * 0.05) 3) (- 3)) w1
                     else setPanOffset (\<lambda>prev. \<lparr>x = x prev + dx * 0.05, y = y prev - dy * 0.05\<rparr>) w1)
           in setPointer \<lparr>x = x t0 / innerWidth e, y = y t0 / innerHeight e\<rparr> w2)\<lparr>lastTouchRef := ts\<rparr>)"
  using assms by (simp add: handleTouchMove_def moveSingle_hit movePinch_miss)

lemma handleTouchMove_pinch:
  assumes "length ts = 2" "length (lastTouchRef w) = 2" "lastDistRef w = Some d"
  shows "handleTouchMove e ts w =
     Some (let dist = hypot (x (ts ! 0) - x (ts ! 1)) (y (ts ! 0) - y (ts ! 1))
           in (setZoomOffset (\<lambda>prev. max (- 20) (min (prev - (dist - d) * 0.05) 40))
                 (w\<lparr>isDraggingRef := True\<rparr>))\<lparr>lastDistRef := Some dist, lastTouchRef := ts\<rparr>)"
  using assms by (simp add: handleTouchMove_def moveSingle_miss movePinch_hit Let_def)

lemma handleTouchMove_other:
  assumes "\<not> (length ts = 1 \<and> length (lastTouchRef w) = 1)"
    and "\<not> (length ts = 2 \<and> length (lastTouchRef w) = 2 \<and> lastDistRef w \<noteq> None)"
  shows "handleTouchMove e ts w = Some (w\<lparr>lastTouchRef := ts\<rparr>)"
  using assms by (simp add: handleTouchMove_def moveSingle_miss movePinch_miss)

lemma handleTouchMove_total: "\<exists>w'. handleTouchMove e ts w = Some w'"
proof (cases "length ts = 1 \<and> length (lastTouchRef w) = 1")
  case True
  then show ?thesis by (simp add: handleTouchMove_single)
next
  case False
  note single = this
  show ?thesis
  proof (cases "length ts = 2 \<and> length (lastTouchRef w) = 2 \<and> lastDistRef w \<noteq> None")
    case True
    then show ?thesis by (auto simp: handleTouchMove_pinch)
  next
    case False
    with single show ?thesis by (simp add: handleTouchMove_other)
  qed
qed

lemma handleTouchStart_total: "\<exists>w'. handleTouchStart e now ts w = Some w'"
  by (simp add: handleTouchStart_def elemAt_def Let_def)

lemma handleTouchStart_single:
  "handleTouchStart e now [p] w =
     Some (setPointer \<lparr>x = x p / innerWidth e, y = y p / innerHeight e\<rparr>
             (w\<lparr>lastTouchRef := [p], touchStartTimeRef := now, isDraggingRef := False,
                startTouchPosRef := Some p\<rparr>))"
  by (simp add: handleTouchStart_def elemAt_def)

lemma handleTouchStart_pair:
  "handleTouchStart e now [p, q] w =
     Some (w\<lparr>lastTouchRef := [p, q], touchStartTimeRef := now, isDraggingRef := False,
             lastDistRef := Some (hypot (x p - x q) (y p - y q))\<rparr>)"
  by (simp add: handleTouchStart_def elemAt_def)

lemma handleTouchStart_other:
  "length ts \<noteq> 1 \<Longrightarrow> length ts \<noteq> 2 \<Longrightarrow>
   handleTouchStart e now ts w =
     Some (w\<lparr>lastTouchRef := ts, touchStartTimeRef := now, isDraggingRef := False\<rparr>)"
  by (simp add: handleTouchStart_def)

lemma handleTouchStart_resets:
  "\<exists>w'. handleTouchStart e now ts w = Some w' \<and> \<not> isDraggingRef w'"
  by (auto simp: handleTouchStart_def elemAt_def setters Let_def)

lemma handleTouchMove_keeps_drag:
  assumes "isDraggingRef w"
  shows "\<exists>w'. handleTouchMove e ts w = Some w' \<and> isDraggingRef w'"
proof (cases "length ts = 1 \<and> length (lastTouchRef w) = 1")
  case True
  then show ?thesis using assms
    by (simp add: handleTouchMove_single Let_def setters)
next
  case False
  note single = this
  show ?thesis
  proof (cases "length ts = 2 \<and> length (lastTouchRef w) = 2 \<and> lastDistRef w \<noteq> None")
    case True
    then show ?thesis
      by (auto simp: handleTouchMove_pinch Let_def setters)
  next
    case False
    with single assms show ?thesis by (simp add: handleTouchMove_other)
  qed
qed

lemma handleTouchEnd_keeps_drag:
  "isDraggingRef (handleTouchEnd now1 now2 n w) = isDraggingRef w"
  by (simp add: handleTouchEnd_def Let_def setters)

lemma step_keeps_drag:
  "isDraggingRef w \<Longrightarrow> \<not> isStart ev \<Longrightarrow> \<exists>w'. step e ev w = Some w' \<and> isDraggingRef w'"
  by (cases ev) (simp_all add: handleTouchMove_keeps_drag handleTouchEnd_keeps_drag)

lemma run_keeps_drag:
  "isDraggingRef w \<Longrightarrow> list_all (\<lambda>p. \<not> isStart (snd p)) evs \<Longrightarrow>
   \<exists>w'. run evs w = Some w' \<and> isDraggingRef w'"
proof (induction evs arbitrary: w)
  case Nil
  then show ?case by simp
next
  case (Cons p evs)
  obtain e ev where p: "p = (e, ev)" by (cases p)
  from Cons.prems p have "\<not> isStart ev" by simp
  with Cons.prems(1) obtain w1 where w1: "step e ev w = Some w1" "isDraggingRef w1"
    using step_keeps_drag by blast
  from Cons.prems(2) have "list_all (\<lambda>p. \<not> isStart (snd p)) evs" by simp
  with Cons.IH [OF w1(2)] obtain w' where "run evs w1 = Some w'" "isDraggingRef w'" by blast
  with w1 p show ?case by simp
qed

lemma hypot_axis: "hypot a 0 = \<bar>a\<bar>"
  by (simp add: hypot_def)

lemmas session_simps = handleTouchStart_single handleTouchStart_pair handleTouchMove_single
  handleTouchMove_pinch handleTouchMove_other handleTouchEnd_def Let_def setters
  initialWorld_def chaosEnv_def formedEnv_def TAP_TIMEOUT_def

lemma single_moves_keep:
  "length (lastTouchRef w) = 1 \<Longrightarrow> list_all isSingleMove evs \<Longrightarrow>
   \<exists>w'. run evs w = Some w' \<and> length (lastTouchRef w') = 1 \<and>
        touchStartTimeRef w' = touchStartTimeRef w"
proof (induction evs arbitrary: w)
  case Nil
  then show ?case by simp
next
  case (Cons p evs)
  from Cons.prems(2) obtain e ts where p: "p = (e, TouchMove ts)" and ts: "length ts = 1"
    by (cases p rule: isSingleMove.cases) auto
  define w1 where "w1 = the (handleTouchMove e ts w)"
  have w1: "handleTouchMove e ts w = Some w1" "length (lastTouchRef w1) = 1"
    "touchStartTimeRef w1 = touchStartTimeRef w"
    using ts Cons.prems(1) unfolding w1_def
    by (simp_all add: handleTouchMove_single Let_def setters)
  from Cons.prems(2) have "list_all isSingleMove evs" by simp
  from Cons.IH [OF w1(2) this] obtain w' where "run evs w1 = Some w'"
    "length (lastTouchRef w') = 1" "touchStartTimeRef w' = touchStartTimeRef w1" by blast
  with w1 p show ?case by simp
qed

lemma single_session_state:
  assumes "list_all isSingleMove moves"
  shows "\<exists>w'. run ((e0, TouchStart t0 [p]) # moves) w = Some w' \<and>
           length (lastTouchRef w') = 1 \<and> touchStartTimeRef w' = t0"
proof -
  define w1 where "w1 = setPointer \<lparr>x = x p / innerWidth e0, y = y p / innerHeight e0\<rparr>
             (w\<lparr>lastTouchRef := [p], touchStartTimeRef := t0, isDraggingRef := False,
                startTouchPosRef := Some p\<rparr>)"
  have s: "handleTouchStart e0 t0 [p] w = Some w1"
    by (simp add: handleTouchStart_single w1_def)
  have "length (lastTouchRef w1) = 1" "touchStartTimeRef w1 = t0"
    by (simp_all add: w1_def setters)
  with single_moves_keep [OF _ assms, of w1] s show ?thesis by auto
qed




subsection \<open>What a stream of events emits\<close>

lemma handleTouchStart_emits:
  "\<exists>w' new. handleTouchStart e now ts w = Some w' \<and> signals w' = signals w @ new \<and>
     list_all inRange new"
  by (auto simp: handleTouchStart_def elemAt_def Let_def setters)

lemma handleTouchMove_emits:
  "\<exists>w' new. handleTouchMove e ts w = Some w' \<and> signals w' = signals w @ new \<and>
     list_all inRange new"
proof (cases "length ts = 1 \<and> length (lastTouchRef w) = 1")
  case True
  then show ?thesis
    by (simp add: handleTouchMove_single Let_def setters)
next
  case False
  note single = this
  show ?thesis
  proof (cases "length ts = 2 \<and> length (lastTouchRef w) = 2 \<and> lastDistRef w \<noteq> None")
    case True
    then show ?thesis
      by (auto simp: handleTouchMove_pinch Let_def setters)
  next
    case False
    with single show ?thesis by (simp add: handleTouchMove_other)
  qed
qed

lemma handleTouchEnd_emits:
  "\<exists>new. signals (handleTouchEnd now1 now2 n w) = signals w @ new \<and> list_all inRange new"
  by (simp add: handleTouchEnd_def Let_def setters)

lemma step_emits:
  "\<exists>w' new. step e ev w = Some w' \<and> signals w' = signals w @ new \<and> list_all inRange new"
proof (cases ev)
  case (TouchStart now ts)
  with handleTouchStart_emits [of e now ts w] show ?thesis by simp
next
  case (TouchMove ts)
  with handleTouchMove_emits [of e ts w] show ?thesis by simp
next
  case (TouchEnd now1 now2 ts)
  with handleTouchEnd_emits [of now1 now2 "length ts" w] show ?thesis by simp
qed

lemma run_emits:
  "\<exists>w' new. run evs w = Some w' \<and> signals w' = signals w @ new \<and> list_all inRange new"
proof (induction evs arbitrary: w)
  case Nil
  show ?case by simp
next
  case (Cons p evs)
  obtain e ev where p: "p = (e, ev)" by (cases p)
  from step_emits [of e ev w] obtain w1 new1 where
    w1: "step e ev w = Some w1" "signals w1 = signals w @ new1" "list_all inRange new1" by blast
  from Cons.IH [of w1] obtain w' new2 where
    w': "run evs w1 = Some w'" "signals w' = signals w1 @ new2" "list_all inRange new2" by blast
  from w1 w' have "run (p # evs) w = Some w'" "signals w' = signals w @ (new1 @ new2)"
    "list_all inRange (new1 @ new2)"
    by (simp_all add: p)
  then show ?case by blast
qed

lemma run_total_in_range: "\<exists>w'. run evs w = Some w' \<and> list_all inRange (emittedBy w w')"
  using run_emits [of evs w] by (auto simp: emittedBy_def)

lemma handleTouchMove_clamped:
  "\<exists>w'. handleTouchMove e ts w = Some w' \<and> list_all inRange (emittedBy w w') \<and>
     (rotationBoost w' = rotationBoost w \<or> (- 3 \<le> rotationBoost w' \<and> rotationBoost w' \<le> 3)) \<and>
     (zoomOffset w' = zoomOffset w \<or> (- 20 \<le> zoomOffset w' \<and> zoomOffset w' \<le> 40))"
proof (cases "length ts = 1 \<and> length (lastTouchRef w) = 1")
  case True
  then show ?thesis
    by (simp add: handleTouchMove_single Let_def setters emittedBy_def)
next
  case False
  note single = this
  show ?thesis
  proof (cases "length ts = 2 \<and> length (lastTouchRef w) = 2 \<and> lastDistRef w \<noteq> None")
    case True
    then show ?thesis
      by (auto simp: handleTouchMove_pinch Let_def setters emittedBy_def)
  next
    case False
    with single show ?thesis by (simp add: handleTouchMove_other emittedBy_def)
  qed
qed

section \<open>The claims about the touch handlers\<close>

subsection \<open>When a tap is emitted\<close>

text \<open>
  C1, as the handler has it. A touch-end emits a tap (it stores the second clock reading in
  \<open>clickTrigger\<close>) exactly when \<open>isDragging\<close> is false, the first clock reading is less than
  300 ms after the latest touch-start, and the latest recorded sample has exactly one point;
  otherwise it emits nothing. In a session of one touch-start with one point followed by move
  samples of one point each, that is: \<open>isDragging\<close> is false and less than 300 ms have passed
  since the start of the session. The handler keeps no record of how many points earlier samples
  had.
\<close>

theorem tap_rule:
  "emittedBy w (handleTouchEnd now1 now2 remaining w) =
     (if \<not> isDraggingRef w \<and> now1 - touchStartTimeRef w < 300 \<and> length (lastTouchRef w) = 1
      then [SetClickTrigger now2] else []) \<and>
   clickTrigger (handleTouchEnd now1 now2 remaining w) =
     (if \<not> isDraggingRef w \<and> now1 - touchStartTimeRef w < 300 \<and> length (lastTouchRef w) = 1
      then now2 else clickTrigger w) \<and>
   (list_all isSingleMove moves \<longrightarrow>
      (\<exists>w'. run ((e0, TouchStart t0 [p]) # moves) w0 = Some w' \<and>
         emittedBy w' (handleTouchEnd now1 now2 0 w') =
           (if \<not> isDraggingRef w' \<and> now1 - t0 < 300 then [SetClickTrigger now2] else [])))"
proof -
  have one: "emittedBy v (handleTouchEnd now1 now2 n v) =
     (if \<not> isDraggingRef v \<and> now1 - touchStartTimeRef v < 300 \<and> length (lastTouchRef v) = 1
      then [SetClickTrigger now2] else [])" for v n
    by (simp add: handleTouchEnd_def Let_def setters emittedBy_def TAP_TIMEOUT_def)
  have click: "clickTrigger (handleTouchEnd now1 now2 remaining w) =
     (if \<not> isDraggingRef w \<and> now1 - touchStartTimeRef w < 300 \<and> length (lastTouchRef w) = 1
      then now2 else clickTrigger w)"
    by (simp add: handleTouchEnd_def Let_def setters TAP_TIMEOUT_def)
  have session: "\<exists>w'. run ((e0, TouchStart t0 [p]) # moves) w0 = Some w' \<and>
         emittedBy w' (handleTouchEnd now1 now2 0 w') =
           (if \<not> isDraggingRef w' \<and> now1 - t0 < 300 then [SetClickTrigger now2] else [])"
    if "list_all isSingleMove moves"
  proof -
    from single_session_state [OF that, of e0 t0 p w0]
    obtain w' where w': "run ((e0, TouchStart t0 [p]) # moves) w0 = Some w'"
      "length (lastTouchRef w') = 1" "touchStartTimeRef w' = t0" by blast
    with one [of w' 0] show ?thesis by simp
  qed
  from one [of w remaining] click session show ?thesis by blast
qed

text \<open>
  The tap scenario of the specification: a finger goes down and lifts 50 ms later at the same
  pixel.
\<close>

theorem tap_rule_witness:
  "list_all isSingleMove [] \<and>
   (\<exists>w'. run [(chaosEnv, TouchStart 0 [\<lparr>x = 500, y = 500\<rparr>])] initialWorld = Some w' \<and>
      emittedBy w' (handleTouchEnd 50 50 0 w') = [SetClickTrigger 50])"
  using tap_rule [where moves = "[]" and ?e0.0 = chaosEnv and ?t0.0 = 0
      and p = "\<lparr>x = 500, y = 500\<rparr>" and ?w0.0 = initialWorld and ?now1.0 = 50 and ?now2.0 = 50
      and w = initialWorld and remaining = 0]
  by (auto simp: session_simps)

text \<open>
  The claim as stated fails on \<open>secondFingerSession\<close>: the session held two points, yet its
  last touch-end emits a tap, 30 ms after the latest touch-start and with \<open>isDragging\<close> false.
\<close>

theorem tap_after_two_fingers_counterexample:
  "\<exists>w w'. run (butlast secondFingerSession) initialWorld = Some w \<and>
      run secondFingerSession initialWorld = Some w' \<and>
      \<not> isDraggingRef w \<and> touchStartTimeRef w = 10 \<and>
      emittedBy w w' = [SetClickTrigger 40] \<and> clickTrigger w' = 40 \<and>
      \<not> neverMultiTouch secondFingerSession"
  by (simp add: secondFingerSession_def neverMultiTouch_def session_simps emittedBy_def)

subsection \<open>How long \<open>isDragging\<close> stays true\<close>

text \<open>
  C2, as the handlers have it. Once \<open>isDragging\<close> is true it stays true through every sequence
  of touch-move and touch-end events, each of which returns. Every touch-start sets it to false,
  also the touch-start of a further finger that lands while the session goes on.
\<close>

theorem dragging_until_next_start:
  "(isDraggingRef w \<and> list_all (\<lambda>p. \<not> isStart (snd p)) evs \<longrightarrow>
      (\<exists>w'. run evs w = Some w' \<and> isDraggingRef w')) \<and>
   (\<exists>w'. handleTouchStart e now ts w = Some w' \<and> \<not> isDraggingRef w')"
  using run_keeps_drag handleTouchStart_resets by blast

theorem dragging_until_next_start_witness:
  "isDraggingRef (dragWorld\<lparr>isDraggingRef := True\<rparr>) \<and>
   list_all (\<lambda>p. \<not> isStart (snd p))
     [(chaosEnv, TouchMove [\<lparr>x = 501, y = 500\<rparr>]), (chaosEnv, TouchEnd 10 10 [])] \<and>
   (\<exists>w'. run [(chaosEnv, TouchMove [\<lparr>x = 501, y = 500\<rparr>]), (chaosEnv, TouchEnd 10 10 [])]
            (dragWorld\<lparr>isDraggingRef := True\<rparr>) = Some w' \<and> isDraggingRef w')"
  using dragging_until_next_start [of "dragWorld\<lparr>isDraggingRef := True\<rparr>"
      "[(chaosEnv, TouchMove [\<lparr>x = 501, y = 500\<rparr>]), (chaosEnv, TouchEnd 10 10 [])]"]
  by simp

text \<open>
  The claim as stated fails on \<open>dragThenSecondFinger\<close>: after the drag \<open>isDragging\<close> is true,
  and the touch-start of the second finger sets it to false while two fingers are down.
\<close>

theorem dragging_reset_counterexample:
  "\<exists>w w'. run (take 2 dragThenSecondFinger) initialWorld = Some w \<and> isDraggingRef w \<and>
      run dragThenSecondFinger initialWorld = Some w' \<and> \<not> isDraggingRef w' \<and>
      length (lastTouchRef w') = 2"
  by (simp add: dragThenSecondFinger_def session_simps)

subsection \<open>Clamped accumulators\<close>

text \<open>
  C3. Every call of \<open>handleTouchMove\<close> returns; every rotation value it stores lies in
  [-3, 3] and every zoom value it stores lies in [-20, 40], whatever the touch points and the
  accumulators before the call are. An accumulator that differs from its value before the call
  is within its range. The same holds along every stream of touch-start, touch-move and
  touch-end events: the run returns and every stored rotation and zoom value is in its range.
\<close>

theorem accumulators_clamped:
  "(\<exists>w'. handleTouchMove e ts w = Some w' \<and> list_all inRange (emittedBy w w') \<and>
      (rotationBoost w' = rotationBoost w \<or> (- 3 \<le> rotationBoost w' \<and> rotationBoost w' \<le> 3)) \<and>
      (zoomOffset w' = zoomOffset w \<or> (- 20 \<le> zoomOffset w' \<and> zoomOffset w' \<le> 40))) \<and>
   (\<exists>w'. run evs w = Some w' \<and> list_all inRange (emittedBy w w'))"
  using handleTouchMove_clamped [of e ts w] run_total_in_range [of evs w] by blast

text \<open>A swipe of 5000 pixels to the right pins the rotation at -3.\<close>

theorem accumulators_clamped_witness:
  "\<exists>w'. handleTouchMove formedEnv [\<lparr>x = 5500, y = 500\<rparr>] dragWorld = Some w' \<and>
     list_all inRange (emittedBy dragWorld w') \<and> rotationBoost w' = - 3"
  using accumulators_clamped [of formedEnv "[\<lparr>x = 5500, y = 500\<rparr>]" dragWorld "[]"]
  by (simp add: handleTouchMove_single dragWorld_def initialWorld_def formedEnv_def Let_def setters
      emittedBy_def)

subsection \<open>Rotation in the FORMED mode\<close>

text \<open>
  C4. In the FORMED mode, a move sample of one point that follows a sample of one point sets the
  rotation accumulator to \<open>clamp(previous - dx * 0.5 * 0.05, -3.0, 3.0)\<close>, with \<open>dx\<close> the
  horizontal difference of the two points. The call stores that value and then the pointer.
\<close>

theorem rotation_formed:
  assumes "state e = ''FORMED''" "length ts = 1" "length (lastTouchRef w) = 1"
  shows "\<exists>w'. handleTouchMove e ts w = Some w' \<and>
           rotationBoost w' =
             clamp (rotationBoost w - (x (ts ! 0) - x (lastTouchRef w ! 0)) * 0.5 * 0.05) (- 3.0) 3.0 \<and>
           emittedBy w w' =
             [SetRotationBoost (rotationBoost w'),
              SetPointer \<lparr>x = x (ts ! 0) / innerWidth e, y = y (ts ! 0) / innerHeight e\<rparr>]"
  using assms
  by (simp add: handleTouchMove_single Let_def setters clamp_def emittedBy_def max_def min_def)

theorem rotation_formed_witness:
  "state formedEnv = ''FORMED'' \<and> length [\<lparr>x = 520, y = 480\<rparr>] = 1 \<and>
   length (lastTouchRef dragWorld) = 1 \<and>
   (\<exists>w'. handleTouchMove formedEnv [\<lparr>x = 520, y = 480\<rparr>] dragWorld = Some w' \<and>
      rotationBoost w' = - 0.5)"
  using rotation_formed [of formedEnv "[\<lparr>x = 520, y = 480\<rparr>]" dragWorld]
  by (auto simp: dragWorld_def initialWorld_def formedEnv_def clamp_def)

subsection \<open>Pinch zoom\<close>



subsection \<open>Panning in the other modes\<close>



subsection \<open>A change of the number of fingers\<close>

text \<open>
  C7. A move sample whose number of points differs from that of the previous sample stores
  nothing: the call only records the sample, so no rotation, pan or zoom signal (and no other
  signal) is emitted and no accumulator changes.
\<close>

theorem count_change_silent:
  assumes "length ts \<noteq> length (lastTouchRef w)"
  shows "handleTouchMove e ts w = Some (w\<lparr>lastTouchRef := ts\<rparr>) \<and>
         emittedBy w (w\<lparr>lastTouchRef := ts\<rparr>) = []"
  using assms by (auto simp: handleTouchMove_other emittedBy_def)

text \<open>A second finger lands: a sample of two points after a sample of one.\<close>

theorem count_change_silent_witness:
  "length [\<lparr>x = 520, y = 480\<rparr>, \<lparr>x = 100, y = 100\<rparr>] \<noteq> length (lastTouchRef dragWorld) \<and>
   handleTouchMove formedEnv [\<lparr>x = 520, y = 480\<rparr>, \<lparr>x = 100, y = 100\<rparr>] dragWorld =
     Some (dragWorld\<lparr>lastTouchRef := [\<lparr>x = 520, y = 480\<rparr>, \<lparr>x = 100, y = 100\<rparr>]\<rparr>) \<and>
   emittedBy dragWorld
     (dragWorld\<lparr>lastTouchRef := [\<lparr>x = 520, y = 480\<rparr>, \<lparr>x = 100, y = 100\<rparr>]\<rparr>) = []"
  using count_change_silent [of "[\<lparr>x = 520, y = 480\<rparr>, \<lparr>x = 100, y = 100\<rparr>]" dragWorld formedEnv]
  by (simp add: dragWorld_def initialWorld_def emittedBy_def)

subsection \<open>More than two fingers\<close>

text \<open>
  C8, as the handlers have it. No call of \<open>handleTouchStart\<close> or \<open>handleTouchMove\<close> throws,
  whatever the number of points, and so no stream of events does. For a sample of more than two points a touch-start only records
  the sample, the start time and \<open>isDragging = false\<close>, and a touch-move only records the
  sample: no signal is emitted, and the first two points are not read as a two-finger gesture.
\<close>

theorem extra_points_recorded_only:
  "(\<exists>w'. handleTouchStart e now ts w = Some w') \<and> (\<exists>w'. handleTouchMove e ts w = Some w') \<and>
   (\<exists>w'. run evs w = Some w') \<and>
   (2 < length ts \<longrightarrow>
      handleTouchStart e now ts w =
        Some (w\<lparr>lastTouchRef := ts, touchStartTimeRef := now, isDraggingRef := False\<rparr>) \<and>
      handleTouchMove e ts w = Some (w\<lparr>lastTouchRef := ts\<rparr>) \<and>
      emittedBy w (w\<lparr>lastTouchRef := ts, touchStartTimeRef := now, isDraggingRef := False\<rparr>) = [] \<and>
      emittedBy w (w\<lparr>lastTouchRef := ts\<rparr>) = [])"
  using handleTouchStart_total [of e now ts w] handleTouchMove_total [of e ts w]
    run_emits [of evs w]
  by (auto simp: handleTouchStart_other handleTouchMove_other emittedBy_def)

theorem extra_points_recorded_only_witness:
  "2 < length [\<lparr>x = 0, y = 0\<rparr>, \<lparr>x = 140, y = 0\<rparr>, \<lparr>x = 0, y = 300\<rparr>] \<and>
   handleTouchMove chaosEnv [\<lparr>x = 0, y = 0\<rparr>, \<lparr>x = 140, y = 0\<rparr>, \<lparr>x = 0, y = 300\<rparr>] pinchWorld =
     Some (pinchWorld\<lparr>lastTouchRef := [\<lparr>x = 0, y = 0\<rparr>, \<lparr>x = 140, y = 0\<rparr>, \<lparr>x = 0, y = 300\<rparr>]\<rparr>) \<and>
   zoomOffset pinchWorld = 0"
  using extra_points_recorded_only [of chaosEnv 0
      "[\<lparr>x = 0, y = 0\<rparr>, \<lparr>x = 140, y = 0\<rparr>, \<lparr>x = 0, y = 300\<rparr>]" pinchWorld "[]"]
  by (simp add: pinchWorld_def initialWorld_def)

text \<open>
  The claim as stated fails on \<open>threeFingerSession\<close>: with three points down nothing is
  emitted and the zoom stays 0, while the same stream cut down to its first two points emits
  the zoom value -2.
\<close>

theorem first_two_counterexample:
  "\<exists>w3 w2. run threeFingerSession initialWorld = Some w3 \<and> signals w3 = [] \<and> zoomOffset w3 = 0 \<and>
      run (firstTwo threeFingerSession) initialWorld = Some w2 \<and>
      signals w2 = [SetZoomOffset (- 2)] \<and> zoomOffset w2 = - 2"
  by (simp add: threeFingerSession_def firstTwo_def session_simps handleTouchStart_other hypot_axis)

subsection \<open>The pointer\<close>

text \<open>
  C9, as the handlers have it. With a viewport of positive width and height, a touch-start of
  one point and a touch-move of one point after a sample of one point store the pointer
  \<open>(x / innerWidth, y / innerHeight)\<close> of that point, and feeding the same point again, by
  either handler, leaves the pointer as it is. The pointer lies in the unit square when the
  point lies within the viewport; the handlers do not clamp it.
\<close>

theorem pointer_normalized:
  assumes "0 < innerWidth e" "0 < innerHeight e"
  shows "(\<exists>w'. handleTouchStart e now [p] w = Some w' \<and> pointer w' = normalized e p \<and>
            emittedBy w w' = [SetPointer (normalized e p)] \<and>
            (\<exists>w''. handleTouchStart e now' [p] w' = Some w'' \<and> pointer w'' = pointer w') \<and>
            (\<exists>w''. handleTouchMove e [p] w' = Some w'' \<and> pointer w'' = pointer w')) \<and>
         (length (lastTouchRef w) = 1 \<longrightarrow>
            (\<exists>w'. handleTouchMove e [p] w = Some w' \<and> pointer w' = normalized e p \<and>
               last (emittedBy w w') = SetPointer (normalized e p))) \<and>
         (0 \<le> x p \<and> x p \<le> innerWidth e \<and> 0 \<le> y p \<and> y p \<le> innerHeight e \<longrightarrow>
            inUnitSquare (normalized e p))"
proof -
  have range: "0 \<le> x p \<and> x p \<le> innerWidth e \<and> 0 \<le> y p \<and> y p \<le> innerHeight e \<longrightarrow>
      inUnitSquare (normalized e p)"
    using assms by (simp add: inUnitSquare_def normalized_def)
  have start: "\<exists>w'. handleTouchStart e now [p] w = Some w' \<and> pointer w' = normalized e p \<and>
            emittedBy w w' = [SetPointer (normalized e p)] \<and>
            (\<exists>w''. handleTouchStart e now' [p] w' = Some w'' \<and> pointer w'' = pointer w') \<and>
            (\<exists>w''. handleTouchMove e [p] w' = Some w'' \<and> pointer w'' = pointer w')"
    by (simp add: handleTouchStart_single handleTouchMove_single setters normalized_def
        emittedBy_def Let_def)
  have move: "length (lastTouchRef w) = 1 \<longrightarrow>
      (\<exists>w'. handleTouchMove e [p] w = Some w' \<and> pointer w' = normalized e p \<and>
         last (emittedBy w w') = SetPointer (normalized e p))"
    by (simp add: handleTouchMove_single setters normalized_def emittedBy_def Let_def)
  from range start move show ?thesis by blast
qed

theorem pointer_normalized_witness:
  "0 < innerWidth formedEnv \<and> 0 < innerHeight formedEnv \<and>
   (\<exists>w'. handleTouchStart formedEnv 0 [\<lparr>x = 500, y = 250\<rparr>] initialWorld = Some w' \<and>
      pointer w' = \<lparr>x = 0.5, y = 0.25\<rparr> \<and> inUnitSquare (pointer w'))"
  using pointer_normalized [of formedEnv 0 "\<lparr>x = 500, y = 250\<rparr>" initialWorld 0]
  by (auto simp: formedEnv_def normalized_def inUnitSquare_def)

text \<open>
  The claim as stated fails for a touch point right of the viewport: at x = 1200 in a viewport
  1000 wide the pointer is (1.2, 0.5).
\<close>

theorem pointer_outside_counterexample:
  "\<exists>w'. handleTouchStart formedEnv 0 [\<lparr>x = 1200, y = 500\<rparr>] initialWorld = Some w' \<and>
      pointer w' = \<lparr>x = 1.2, y = 0.5\<rparr> \<and> \<not> inUnitSquare (pointer w')"
  by (simp add: handleTouchStart_single setters formedEnv_def inUnitSquare_def)

section \<open>The claim about the share link\<close>

subsection \<open>Parsing a query of plain characters\<close>

lemma special_not_hex:
  "\<not> isHexDigit CHR ''#''" "\<not> isHexDigit CHR ''&''" "\<not> isHexDigit CHR ''=''"
  "\<not> isHexDigit CHR ''+''" "\<not> isHexDigit CHR ''%''" "\<not> isHexDigit CHR ''?''"
  by (simp_all add: isHexDigit_def)

lemma hex_not_special:
  assumes "list_all isHexDigit h"
  shows "CHR ''#'' \<notin> set h" "CHR ''&'' \<notin> set h" "CHR ''='' \<notin> set h" "CHR ''+'' \<notin> set h"
    "CHR ''%'' \<notin> set h" "CHR ''?'' \<notin> set h"
  using assms special_not_hex by (auto simp: list_all_iff)

lemma splitOn_none: "c \<notin> set u \<Longrightarrow> splitOn c u = [u]"
  by (induction u) auto

lemma splitOn_append: "c \<notin> set u \<Longrightarrow> splitOn c (u @ c # v) = u # splitOn c v"
  by (induction u) auto

lemma percentDecode_id: "CHR ''%'' \<notin> set s \<Longrightarrow> percentDecode s = s"
  by (induction s rule: percentDecode.induct) auto

lemma plusToSpace_id: "CHR ''+'' \<notin> set s \<Longrightarrow> plusToSpace s = s"
  by (induction s) (auto simp: plusToSpace_def)

lemma takeWhile_upto: "c \<notin> set u \<Longrightarrow> takeWhile (\<lambda>a. a \<noteq> c) (u @ c # v) = u"
  by (induction u) auto

lemma dropWhile_upto: "c \<notin> set u \<Longrightarrow> dropWhile (\<lambda>a. a \<noteq> c) (u @ c # v) = c # v"
  by (induction u) auto

lemma takeWhile_all: "c \<notin> set u \<Longrightarrow> takeWhile (\<lambda>a. a \<noteq> c) u = u"
  by (induction u) auto

lemma parsePair_plain:
  assumes "CHR ''='' \<notin> set n" "CHR ''+'' \<notin> set n" "CHR ''%'' \<notin> set n"
    "CHR ''+'' \<notin> set v" "CHR ''%'' \<notin> set v"
  shows "parsePair (n @ CHR ''='' # v) = (n, v)"
  using assms
  by (simp add: parsePair_def Let_def takeWhile_upto dropWhile_upto percentDecode_id
      plusToSpace_id)

lemma stripHash_color: "stripHash (CHR ''#'' # h) = h"
  by (simp add: stripHash_def)

lemma splitOn_three:
  "c \<notin> set a \<Longrightarrow> c \<notin> set b \<Longrightarrow> c \<notin> set d \<Longrightarrow> splitOn c (a @ c # b @ c # d) = [a, b, d]"
  by (simp add: splitOn_append splitOn_none del: splitOn.simps)

lemma urlSearchParams_question:
  "urlSearchParams (CHR ''?'' # s) = map parsePair (filter (\<lambda>b. b \<noteq> []) (splitOn CHR ''&'' s))"
  by (simp add: urlSearchParams_def del: splitOn.simps)

lemma query_params:
  assumes "list_all isHexDigit h1" "list_all isHexDigit h2" "list_all isHexDigit h3"
  shows "urlSearchParams (''?c1='' @ h1 @ ''&c2='' @ h2 @ ''&c3='' @ h3) =
           [(''c1'', h1), (''c2'', h2), (''c3'', h3)]"
proof -
  have shape: "''?c1='' @ h1 @ ''&c2='' @ h2 @ ''&c3='' @ h3 =
      CHR ''?'' # ((''c1'' @ CHR ''='' # h1) @ CHR ''&'' # (''c2'' @ CHR ''='' # h2) @
        CHR ''&'' # (''c3'' @ CHR ''='' # h3))"
    by simp
  have split: "splitOn CHR ''&'' ((''c1'' @ CHR ''='' # h1) @ CHR ''&'' # (''c2'' @ CHR ''='' # h2) @
        CHR ''&'' # (''c3'' @ CHR ''='' # h3)) =
      [''c1'' @ CHR ''='' # h1, ''c2'' @ CHR ''='' # h2, ''c3'' @ CHR ''='' # h3]"
    using hex_not_special(2) [OF assms(1)] hex_not_special(2) [OF assms(2)]
      hex_not_special(2) [OF assms(3)]
    by (intro splitOn_three) simp_all
  have p1: "parsePair (''c1'' @ CHR ''='' # h1) = (''c1'', h1)"
    using hex_not_special [OF assms(1)] by (intro parsePair_plain) simp_all
  have p2: "parsePair (''c2'' @ CHR ''='' # h2) = (''c2'', h2)"
    using hex_not_special [OF assms(2)] by (intro parsePair_plain) simp_all
  have p3: "parsePair (''c3'' @ CHR ''='' # h3) = (''c3'', h3)"
    using hex_not_special [OF assms(3)] by (intro parsePair_plain) simp_all
  have "urlSearchParams (''?c1='' @ h1 @ ''&c2='' @ h2 @ ''&c3='' @ h3) =
      map parsePair [''c1'' @ CHR ''='' # h1, ''c2'' @ CHR ''='' # h2, ''c3'' @ CHR ''='' # h3]"
    unfolding shape urlSearchParams_question split by simp
  also have "\<dots> = [(''c1'', h1), (''c2'', h2), (''c3'', h3)]"
    unfolding list.map p1 p2 p3 by (rule refl)
  finally show ?thesis .
qed

lemma locationSearch_link:
  assumes "CHR ''?'' \<notin> set base" "CHR ''#'' \<notin> set base" "CHR ''#'' \<notin> set q" "q \<noteq> []"
  shows "locationSearch (base @ CHR ''?'' # q) = CHR ''?'' # q"
proof -
  have "CHR ''#'' \<notin> set (base @ CHR ''?'' # q)"
    using assms by simp
  then have t: "takeWhile (\<lambda>c. c \<noteq> CHR ''#'') (base @ CHR ''?'' # q) = base @ CHR ''?'' # q"
    by (rule takeWhile_all)
  have d: "dropWhile (\<lambda>c. c \<noteq> CHR ''?'') (base @ CHR ''?'' # q) = CHR ''?'' # q"
    using assms(1) by (rule dropWhile_upto)
  show ?thesis using assms(4) by (simp add: locationSearch_def t d)
qed


lemma hexColor_split:
  assumes "hexColor c" "c \<noteq> ''#''"
  obtains h where "c = CHR ''#'' # h" "list_all isHexDigit h" "h \<noteq> []"
  using assms by (cases c) (auto simp: hexColor_def)

lemma loadFromSearch_three:
  assumes "urlSearchParams search = [(''c1'', h1), (''c2'', h2), (''c3'', h3)]"
    "h1 \<noteq> []" "h2 \<noteq> []" "h3 \<noteq> []"
  shows "loadFromSearch search st =
     st\<lparr>treeConfig := Some \<lparr>primaryColor = CHR ''#'' # h1, accentColor = CHR ''#'' # h2,
                             lightColor = CHR ''#'' # h3, photoUrl = None\<rparr>,
        isPanelOpen := True\<rparr>"
  using assms by (simp add: loadFromSearch_def paramsGet_def truthy_def)

lemma loadFromSearch_absent:
  assumes "paramsGet (urlSearchParams search) ''c1'' = None \<or>
    paramsGet (urlSearchParams search) ''c2'' = None \<or>
    paramsGet (urlSearchParams search) ''c3'' = None"
  shows "loadFromSearch search st = st"
  using assms by (auto simp: loadFromSearch_def truthy_def Let_def)

lemma share_roundtrip:
  assumes "hexColor (primaryColor cfg)" "hexColor (accentColor cfg)" "hexColor (lightColor cfg)"
    and "primaryColor cfg \<noteq> ''#''" "accentColor cfg \<noteq> ''#''" "lightColor cfg \<noteq> ''#''"
    and "CHR ''?'' \<notin> set (origin @ pathname)" "CHR ''#'' \<notin> set (origin @ pathname)"
  shows "loadFromSearch (locationSearch (shareLink origin pathname cfg)) st =
           st\<lparr>treeConfig := Some (cfg\<lparr>photoUrl := None\<rparr>), isPanelOpen := True\<rparr>"
proof -
  from assms(1,4) obtain h1 where h1: "primaryColor cfg = CHR ''#'' # h1"
    "list_all isHexDigit h1" "h1 \<noteq> []" by (rule hexColor_split)
  from assms(2,5) obtain h2 where h2: "accentColor cfg = CHR ''#'' # h2"
    "list_all isHexDigit h2" "h2 \<noteq> []" by (rule hexColor_split)
  from assms(3,6) obtain h3 where h3: "lightColor cfg = CHR ''#'' # h3"
    "list_all isHexDigit h3" "h3 \<noteq> []" by (rule hexColor_split)
  define q where "q = ''c1='' @ h1 @ ''&c2='' @ h2 @ ''&c3='' @ h3"
  have link: "shareLink origin pathname cfg = (origin @ pathname) @ CHR ''?'' # q"
    by (simp add: shareLink_def h1 h2 h3 stripHash_color q_def)
  have "CHR ''#'' \<notin> set q" "q \<noteq> []"
    using hex_not_special(1) [OF h1(2)] hex_not_special(1) [OF h2(2)]
      hex_not_special(1) [OF h3(2)] by (simp_all add: q_def)
  with assms(7,8) have search: "locationSearch (shareLink origin pathname cfg) = CHR ''?'' # q"
    unfolding link by (intro locationSearch_link)
  have "CHR ''?'' # q = ''?c1='' @ h1 @ ''&c2='' @ h2 @ ''&c3='' @ h3"
    by (simp add: q_def)
  with query_params [OF h1(2) h2(2) h3(2)]
  have "urlSearchParams (locationSearch (shareLink origin pathname cfg)) =
      [(''c1'', h1), (''c2'', h2), (''c3'', h3)]"
    by (simp only: search)
  from loadFromSearch_three [OF this h1(3) h2(3) h3(3)]
  have "loadFromSearch (locationSearch (shareLink origin pathname cfg)) st =
     st\<lparr>treeConfig := Some \<lparr>primaryColor = CHR ''#'' # h1, accentColor = CHR ''#'' # h2,
                             lightColor = CHR ''#'' # h3, photoUrl = None\<rparr>,
        isPanelOpen := True\<rparr>" .
  moreover have "\<lparr>primaryColor = CHR ''#'' # h1, accentColor = CHR ''#'' # h2,
      lightColor = CHR ''#'' # h3, photoUrl = None\<rparr> = cfg\<lparr>photoUrl := None\<rparr>"
    using h1(1) h2(1) h3(1) by (cases cfg) simp
  ultimately show ?thesis by simp
qed

subsection \<open>From the share link back to the colours\<close>

text \<open>
  C10, as the component has it. Let the three colours each be \<open>#\<close> followed by at least one
  hex digit, and let origin and path hold neither \<open>?\<close> nor \<open>#\<close>. Then \<open>generateShareLink\<close>
  stores a URL, and loading the page at that URL sets the configuration to the same three
  colours, without the photo, and opens the panel. If one of \<open>c1\<close>, \<open>c2\<close>, \<open>c3\<close> is absent
  from the query, loading leaves the state as it is.
\<close>

theorem share_link_roundtrip:
  "(hexColor (primaryColor cfg) \<and> hexColor (accentColor cfg) \<and> hexColor (lightColor cfg) \<and>
    primaryColor cfg \<noteq> ''#'' \<and> accentColor cfg \<noteq> ''#'' \<and> lightColor cfg \<noteq> ''#'' \<and>
    CHR ''?'' \<notin> set (origin @ pathname) \<and> CHR ''#'' \<notin> set (origin @ pathname) \<longrightarrow>
    (\<exists>url. shareUrl (generateShareLink origin pathname (st0\<lparr>treeConfig := Some cfg\<rparr>)) = Some url \<and>
       loadFromSearch (locationSearch url) st =
         st\<lparr>treeConfig := Some (cfg\<lparr>photoUrl := None\<rparr>), isPanelOpen := True\<rparr>)) \<and>
   (paramsGet (urlSearchParams search) ''c1'' = None \<or>
    paramsGet (urlSearchParams search) ''c2'' = None \<or>
    paramsGet (urlSearchParams search) ''c3'' = None \<longrightarrow>
    loadFromSearch search st = st)"
  using share_roundtrip [of cfg origin pathname st] loadFromSearch_absent [of search st]
  by (simp add: generateShareLink_def Let_def)

theorem share_link_roundtrip_witness:
  "hexColor (primaryColor sampleConfig) \<and> hexColor (accentColor sampleConfig) \<and>
   hexColor (lightColor sampleConfig) \<and>
   shareLink ''https://example.com'' ''/'' sampleConfig =
     ''https://example.com/?c1=ff0000&c2=00FF00&c3=0000ff'' \<and>
   loadFromSearch (locationSearch ''https://example.com/?c1=ff0000&c2=00FF00&c3=0000ff'')
       freshCreator =
     freshCreator\<lparr>treeConfig := Some (sampleConfig\<lparr>photoUrl := None\<rparr>), isPanelOpen := True\<rparr> \<and>
   paramsGet (urlSearchParams []) ''c1'' = None \<and>
   loadFromSearch [] freshCreator = freshCreator"
proof -
  have hex: "hexColor (primaryColor sampleConfig)" "hexColor (accentColor sampleConfig)"
    "hexColor (lightColor sampleConfig)"
    by (simp_all add: sampleConfig_def hexColor_def isHexDigit_def)
  have ne: "primaryColor sampleConfig \<noteq> ''#''" "accentColor sampleConfig \<noteq> ''#''"
    "lightColor sampleConfig \<noteq> ''#''"
    by (simp_all add: sampleConfig_def)
  have base: "CHR ''?'' \<notin> set (''https://example.com'' @ ''/'')"
    "CHR ''#'' \<notin> set (''https://example.com'' @ ''/'')"
    by simp_all
  have absent: "paramsGet (urlSearchParams []) ''c1'' = None"
    by (simp add: urlSearchParams_def paramsGet_def)
  have url: "shareLink ''https://example.com'' ''/'' sampleConfig =
      ''https://example.com/?c1=ff0000&c2=00FF00&c3=0000ff''"
    by (simp add: shareLink_def sampleConfig_def stripHash_def)
  from share_link_roundtrip [of sampleConfig "''https://example.com''" "''/''" freshCreator
      freshCreator "[]"] hex ne base absent
  have "loadFromSearch (locationSearch (shareLink ''https://example.com'' ''/'' sampleConfig))
       freshCreator =
     freshCreator\<lparr>treeConfig := Some (sampleConfig\<lparr>photoUrl := None\<rparr>), isPanelOpen := True\<rparr>"
    and "loadFromSearch [] freshCreator = freshCreator"
    by (simp_all add: generateShareLink_def Let_def)
  with hex absent url show ?thesis by (simp only: simp_thms)
qed

text \<open>
  The claim as stated fails for the colour \<open>#\<close>, which is \<open>#\<close> followed by a string of
  (no) hex digits: the link then carries an empty \<open>c1\<close>, which the loader takes as absent, so
  the configuration is not restored.
\<close>

theorem empty_hex_counterexample:
  "hexColor (primaryColor emptyHexConfig) \<and> hexColor (accentColor emptyHexConfig) \<and>
   hexColor (lightColor emptyHexConfig) \<and>
   shareUrl (generateShareLink ''https://example.com'' ''/''
       (freshCreator\<lparr>treeConfig := Some emptyHexConfig\<rparr>)) =
     Some ''https://example.com/?c1=&c2=00ff00&c3=0000ff'' \<and>
   loadFromSearch (locationSearch ''https://example.com/?c1=&c2=00ff00&c3=0000ff'') freshCreator =
     freshCreator \<and>
   treeConfig freshCreator = None"
proof -
  have hex: "hexColor (primaryColor emptyHexConfig)" "hexColor (accentColor emptyHexConfig)"
    "hexColor (lightColor emptyHexConfig)"
    by (simp_all add: emptyHexConfig_def hexColor_def isHexDigit_def)
  have url: "shareUrl (generateShareLink ''https://example.com'' ''/''
       (freshCreator\<lparr>treeConfig := Some emptyHexConfig\<rparr>)) =
     Some ''https://example.com/?c1=&c2=00ff00&c3=0000ff''"
    by (simp add: generateShareLink_def shareLink_def emptyHexConfig_def stripHash_def Let_def)
  have search: "locationSearch ''https://example.com/?c1=&c2=00ff00&c3=0000ff'' =
      ''?c1=&c2=00ff00&c3=0000ff''"
    using locationSearch_link [of "''https://example.com/''" "''c1=&c2=00ff00&c3=0000ff''"]
    by simp
  have params: "urlSearchParams ''?c1=&c2=00ff00&c3=0000ff'' =
      [(''c1'', []), (''c2'', ''00ff00''), (''c3'', ''0000ff'')]"
    using query_params [of "[]" "''00ff00''" "''0000ff''"] by (simp add: isHexDigit_def)
  have "paramsGet (urlSearchParams
      (locationSearch ''https://example.com/?c1=&c2=00ff00&c3=0000ff'')) ''c1'' = Some []"
    unfolding search params by (simp add: paramsGet_def)
  then have load: "loadFromSearch
      (locationSearch ''https://example.com/?c1=&c2=00ff00&c3=0000ff'') freshCreator = freshCreator"
    by (simp add: loadFromSearch_def truthy_def Let_def)
  from hex url load show ?thesis by (simp add: freshCreator_def)
qed

end
